theory Spec2Isabelle
  imports
    Main
    "HOL-Library.AList"
    "HOL-Library.Char_ord"
    "HOL-Library.List_Lexorder"
    "HOL-Library.Multiset"
begin

section \<open>The album catalogue: data model\<close>

text \<open>
  \<^verbatim>\<open>model.go\<close>: an album is a struct of three strings and an \<^verbatim>\<open>int\<close> price in
  cents. Go strings are byte sequences and compare bytewise; \<^typ>\<open>string\<close> with the
  lexicographic order on lists over the byte order on \<^typ>\<open>char\<close> is the same order.
  The price is only ever compared with constants, never computed with, so it is an
  \<^typ>\<open>int\<close>.
\<close>

record Album =
  ID :: string
  Title :: string
  Artist :: string
  Price :: int

text \<open>The zero value \<^verbatim>\<open>Album{}\<close>.\<close>

definition Album_zero :: Album where
  "Album_zero = \<lparr>ID = [], Title = [], Artist = [], Price = 0\<rparr>"

text \<open>
  \<^verbatim>\<open>errors.go\<close>: the two sentinel errors of the package. The \<^verbatim>\<open>Database\<close> interface
  lets an implementation return any other error, possibly one that wraps a sentinel;
  \<^verbatim>\<open>errors.Is\<close> follows the chain of wrapped errors.
\<close>

datatype error =
    ErrDoesNotExist
  | ErrAlreadyExists
  | errors_New string
  | Wrapped string error

fun unwraps_to :: "error \<Rightarrow> error \<Rightarrow> bool" where
  "unwraps_to (Wrapped msg e) target = (Wrapped msg e = target \<or> unwraps_to e target)"
| "unwraps_to e target = (e = target)"

text \<open>\<^verbatim>\<open>errors.Is(err, target)\<close> for a non-nil target; a nil \<^verbatim>\<open>err\<close> is \<open>None\<close>.\<close>

definition errors_Is :: "error option \<Rightarrow> error \<Rightarrow> bool" where
  "errors_Is err target = (case err of None \<Rightarrow> False | Some e \<Rightarrow> unwraps_to e target)"

definition ErrorAlreadyExists :: string where "ErrorAlreadyExists = ''already-exists''"
definition ErrorDatabase :: string where "ErrorDatabase = ''database''"
definition ErrorInternal :: string where "ErrorInternal = ''internal''"
definition ErrorMalformedJSON :: string where "ErrorMalformedJSON = ''malformed-json''"
definition ErrorMethodNotAllowed :: string where "ErrorMethodNotAllowed = ''method-not-allowed''"
definition ErrorNotFound :: string where "ErrorNotFound = ''not-found''"
definition ErrorValidation :: string where "ErrorValidation = ''validation''"

section \<open>The in-memory database\<close>

text \<open>
  \<^verbatim>\<open>MemoryDatabase\<close> holds a Go map from id to album. A Go map has at most one entry
  per key and is iterated in an order the language leaves open, so it is an association
  list: \<^const>\<open>map_of\<close> is the lookup \<^verbatim>\<open>d.albums[id]\<close>, \<^const>\<open>AList.update\<close> the
  assignment \<^verbatim>\<open>d.albums[id] = album\<close>, and the order of the list stands for the order
  in which \<^verbatim>\<open>range\<close> happens to visit the entries. The read/write lock orders concurrent
  calls and has no sequential effect; every method is a transition of the database
  state that also returns the method's results (a nil error is \<open>None\<close>).
\<close>

record MemoryDatabase =
  albums :: "(string \<times> Album) list"

definition NewMemoryDatabase :: MemoryDatabase where
  "NewMemoryDatabase = \<lparr>albums = []\<rparr>"

text \<open>
  \<^verbatim>\<open>sort.Slice\<close> belongs to Go's standard library: it reorders the slice so that no
  element is \<^verbatim>\<open>less\<close> than one before it, and does not promise to keep equal elements
  in order. It is modelled as insertion sort (which the library itself uses on short
  slices); on a slice whose elements are pairwise comparable by \<^verbatim>\<open>less\<close> every sorting
  algorithm returns the same slice.
\<close>

fun insert_less :: "('a \<Rightarrow> 'a \<Rightarrow> bool) \<Rightarrow> 'a \<Rightarrow> 'a list \<Rightarrow> 'a list" where
  "insert_less lt x [] = [x]"
| "insert_less lt x (y # ys) =
     (if lt y x then y # insert_less lt x ys else x # y # ys)"

definition sort_Slice :: "('a \<Rightarrow> 'a \<Rightarrow> bool) \<Rightarrow> 'a list \<Rightarrow> 'a list" where
  "sort_Slice lt xs = foldr (insert_less lt) xs []"

definition MemoryDatabase_GetAlbums ::
  "MemoryDatabase \<Rightarrow> MemoryDatabase \<times> Album list \<times> error option" where
  "MemoryDatabase_GetAlbums d =
     (let albums0 = foldl (\<lambda>acc (k, album). acc @ [album]) [] (albums d);
          albums1 = sort_Slice (\<lambda>a b. ID a < ID b) albums0
      in (d, albums1, None))"

definition MemoryDatabase_GetAlbumByID ::
  "MemoryDatabase \<Rightarrow> string \<Rightarrow> MemoryDatabase \<times> Album \<times> error option" where
  "MemoryDatabase_GetAlbumByID d id' =
     (case map_of (albums d) id' of
        None \<Rightarrow> (d, Album_zero, Some ErrDoesNotExist)
      | Some album \<Rightarrow> (d, album, None))"

definition MemoryDatabase_AddAlbum ::
  "MemoryDatabase \<Rightarrow> Album \<Rightarrow> MemoryDatabase \<times> error option" where
  "MemoryDatabase_AddAlbum d album =
     (if map_of (albums d) (ID album) \<noteq> None then (d, Some ErrAlreadyExists)
      else (d\<lparr>albums := AList.update (ID album) album (albums d)\<rparr>, None))"

text \<open>
  The state of the database as \<^verbatim>\<open>main\<close> seeds it, and the same two albums added in
  the opposite order.
\<close>

definition album_a1 :: Album where
  "album_a1 = \<lparr>ID = ''a1'', Title = ''9th Symphony'', Artist = ''Beethoven'', Price = 795\<rparr>"

definition album_a2 :: Album where
  "album_a2 = \<lparr>ID = ''a2'', Title = ''Hey Jude'', Artist = ''The Beatles'', Price = 2000\<rparr>"

definition main_db :: MemoryDatabase where
  "main_db =
     fst (MemoryDatabase_AddAlbum (fst (MemoryDatabase_AddAlbum NewMemoryDatabase album_a1)) album_a2)"

definition main_db_rev :: MemoryDatabase where
  "main_db_rev =
     fst (MemoryDatabase_AddAlbum (fst (MemoryDatabase_AddAlbum NewMemoryDatabase album_a2)) album_a1)"

text \<open>
  What every database built by \<^const>\<open>NewMemoryDatabase\<close> and
  \<^const>\<open>MemoryDatabase_AddAlbum\<close> satisfies: one entry per key (the Go map's own
  invariant) and each album stored under its own id.
\<close>

definition db_inv :: "MemoryDatabase \<Rightarrow> bool" where
  "db_inv d = (distinct (map fst (albums d)) \<and> list_all (\<lambda>(k, album). ID album = k) (albums d))"

section \<open>JSON encoding\<close>

text \<open>
  \<^verbatim>\<open>encoding/json\<close> belongs to Go's standard library. Its output is modelled up to
  layout, as the JSON value that the bytes returned by \<^verbatim>\<open>json.MarshalIndent\<close> denote:
  a struct becomes an object with its fields in declaration order under the names of
  their tags, a field tagged \<^verbatim>\<open>omitempty\<close> is left out when it is zero or empty, a map
  becomes an object with its keys sorted, a non-nil slice becomes an array.
\<close>

datatype json =
    JString string
  | JNumber int
  | JArray "json list"
  | JObject "(string \<times> json) list"

text \<open>
  The struct \<^verbatim>\<open>validationIssue\<close> local to \<^verbatim>\<open>addAlbum\<close>, with fields \<^verbatim>\<open>Error\<close> and
  \<^verbatim>\<open>Message\<close> in this order, and the values the handlers store in a
  \<^verbatim>\<open>map[string]any\<close>: a validation issue or a string. Such a map is an association
  list; the nil map and the empty map are both \<open>[]\<close> (the code only takes their
  length and marshals them, which does not tell them apart under \<^verbatim>\<open>omitempty\<close>).
\<close>

datatype validationIssue = validationIssue string string

datatype map_value = Issue validationIssue | Str string

text \<open>The anonymous struct that \<^verbatim>\<open>jsonError\<close> builds.\<close>

record response =
  Status :: int
  Error :: string
  Data :: "(string \<times> map_value) list"

text \<open>The values that the handlers pass to \<^verbatim>\<open>writeJSON\<close> as \<^verbatim>\<open>v any\<close>.\<close>

datatype any = AlbumSlice "Album list" | AlbumValue Album | ResponseValue response

text \<open>
  The encoder reads a Go string as UTF-8 (\<^verbatim>\<open>utf8.DecodeRuneInString\<close>) and writes
  U+FFFD, in UTF-8 the bytes EF BF BD, for every byte at which no well-formed sequence
  starts. A sequence is well formed when its first byte is below 80, or is C2..DF, E0..EF
  or F0..F4 and is followed by one, two or three bytes in 80..BF, the first of them
  further restricted after E0 (A0..BF), ED (80..9F), F0 (90..BF) and F4 (80..8F).
  \<open>rune_width c cs\<close> is the length of the sequence starting with byte \<open>c\<close>
  before the bytes \<open>cs\<close>, or \<open>None\<close> where the decoder returns
  \<^verbatim>\<open>RuneError\<close> of width one.
\<close>

definition between :: "nat \<Rightarrow> nat \<Rightarrow> char \<Rightarrow> bool" where
  "between lo hi c = (lo \<le> of_char c \<and> (of_char c :: nat) \<le> hi)"

definition tail_ok :: "nat \<Rightarrow> nat \<Rightarrow> nat \<Rightarrow> string \<Rightarrow> nat option" where
  "tail_ok lo hi k cs =
     (case take k cs of
        [] \<Rightarrow> None
      | c1 # rest \<Rightarrow>
          if Suc (length rest) = k \<and> between lo hi c1 \<and> list_all (between 0x80 0xBF) rest
          then Some (Suc k) else None)"

definition rune_width :: "char \<Rightarrow> string \<Rightarrow> nat option" where
  "rune_width c cs =
     (let b = of_char c :: nat
      in if b < 0x80 then Some 1
         else if b < 0xC2 then None
         else if b \<le> 0xDF then tail_ok 0x80 0xBF 1 cs
         else if b = 0xE0 then tail_ok 0xA0 0xBF 2 cs
         else if b \<le> 0xEC then tail_ok 0x80 0xBF 2 cs
         else if b = 0xED then tail_ok 0x80 0x9F 2 cs
         else if b \<le> 0xEF then tail_ok 0x80 0xBF 2 cs
         else if b = 0xF0 then tail_ok 0x90 0xBF 3 cs
         else if b \<le> 0xF3 then tail_ok 0x80 0xBF 3 cs
         else if b = 0xF4 then tail_ok 0x80 0x8F 3 cs
         else None)"

text \<open>\<^verbatim>\<open>utf8.ValidString\<close>: the string is a sequence of well-formed sequences.\<close>

fun utf8_ValidString :: "string \<Rightarrow> bool" where
  "utf8_ValidString [] = True"
| "utf8_ValidString (c # cs) =
     (case rune_width c cs of
        None \<Rightarrow> False
      | Some n \<Rightarrow> utf8_ValidString (drop (n - 1) cs))"

text \<open>The string that the encoder writes for a Go string, as UTF-8 bytes.\<close>

fun json_string :: "string \<Rightarrow> string" where
  "json_string [] = []"
| "json_string (c # cs) =
     (case rune_width c cs of
        None \<Rightarrow> [CHR 0xEF, CHR 0xBF, CHR 0xBD] @ json_string cs
      | Some n \<Rightarrow> c # take (n - 1) cs @ json_string (drop (n - 1) cs))"

definition marshal_Album :: "Album \<Rightarrow> json" where
  "marshal_Album a =
     JObject ([(''id'', JString (json_string (ID a))), (''title'', JString (json_string (Title a))),
               (''artist'', JString (json_string (Artist a)))]
              @ (if Price a = 0 then [] else [(''price'', JNumber (Price a))]))"

text \<open>
  The strings of a validation issue and of an error response are constants of the
  package, in ASCII, or the text of a decoding error, which \<^verbatim>\<open>encoding/json\<close> composes
  as valid UTF-8; the encoder writes them as they are.
\<close>

fun marshal_map_value :: "map_value \<Rightarrow> json" where
  "marshal_map_value (Issue (validationIssue err msg)) =
     JObject ([(''error'', JString err)] @ (if msg = [] then [] else [(''message'', JString msg)]))"
| "marshal_map_value (Str s) = JString s"

definition marshal_map :: "(string \<times> map_value) list \<Rightarrow> json" where
  "marshal_map m = JObject (map (\<lambda>(k, v). (k, marshal_map_value v)) (sort_key fst m))"

definition marshal_response :: "response \<Rightarrow> json" where
  "marshal_response r =
     JObject ([(''status'', JNumber (Status r)), (''error'', JString (Error r))]
              @ (if Data r = [] then [] else [(''data'', marshal_map (Data r))]))"

text \<open>
  \<^verbatim>\<open>json.MarshalIndent\<close> returns an error for values it cannot encode (channels,
  functions, cyclic data); none of the three kinds of value passed here is one.
  A slice is a list, so the nil slice (encoded as \<^verbatim>\<open>null\<close>) is not told apart from
  the empty one; \<^verbatim>\<open>MemoryDatabase.GetAlbums\<close> never returns nil.
\<close>

fun json_MarshalIndent :: "any \<Rightarrow> error + json" where
  "json_MarshalIndent (AlbumSlice as) = Inr (JArray (map marshal_Album as))"
| "json_MarshalIndent (AlbumValue a) = Inr (marshal_Album a)"
| "json_MarshalIndent (ResponseValue r) = Inr (marshal_response r)"

text \<open>Reading a member of a JSON object, for stating what a response contains.\<close>

fun member :: "string \<Rightarrow> json \<Rightarrow> json option" where
  "member k (JObject kvs) = map_of kvs k"
| "member k j = None"

section \<open>Requests and responses\<close>

text \<open>
  What the handlers use of \<^verbatim>\<open>net/http\<close>: of a request its method, the path of its
  URL and the result of reading its body to the end (\<^verbatim>\<open>io.ReadAll\<close>: the bytes, or
  an error); of a response writer its header map, the status code set by
  \<^verbatim>\<open>WriteHeader\<close> and the chunks written. Only the first \<^verbatim>\<open>WriteHeader\<close> counts, and
  a \<^verbatim>\<open>Write\<close> before any \<^verbatim>\<open>WriteHeader\<close> sends status 200. An error of
  \<^verbatim>\<open>w.Write\<close> is only logged by the code; the logger's output is not modelled.
\<close>

record Request =
  Method :: string
  URL_Path :: string
  Body :: "error + string"

datatype bytes = Indented json | Plain string

record ResponseWriter =
  Header :: "string \<rightharpoonup> string"
  statusCode :: "int option"
  written :: "bytes list"

definition NewResponseWriter :: ResponseWriter where
  "NewResponseWriter = \<lparr>Header = Map.empty, statusCode = None, written = []\<rparr>"

definition Header_Set :: "ResponseWriter \<Rightarrow> string \<Rightarrow> string \<Rightarrow> ResponseWriter" where
  "Header_Set w k v = w\<lparr>Header := (Header w)(k \<mapsto> v)\<rparr>"

definition WriteHeader :: "ResponseWriter \<Rightarrow> int \<Rightarrow> ResponseWriter" where
  "WriteHeader w c = (if statusCode w = None then w\<lparr>statusCode := Some c\<rparr> else w)"

definition Write :: "ResponseWriter \<Rightarrow> bytes \<Rightarrow> ResponseWriter" where
  "Write w b = (let w1 = WriteHeader w 200 in w1\<lparr>written := written w1 @ [b]\<rparr>)"

definition StatusOK :: int where "StatusOK = 200"
definition StatusCreated :: int where "StatusCreated = 201"
definition StatusBadRequest :: int where "StatusBadRequest = 400"
definition StatusNotFound :: int where "StatusNotFound = 404"
definition StatusMethodNotAllowed :: int where "StatusMethodNotAllowed = 405"
definition StatusConflict :: int where "StatusConflict = 409"
definition StatusInternalServerError :: int where "StatusInternalServerError = 500"

text \<open>\<^verbatim>\<open>http.Error\<close>: a plain-text reply, the message followed by a newline.\<close>

definition http_Error :: "ResponseWriter \<Rightarrow> string \<Rightarrow> int \<Rightarrow> ResponseWriter" where
  "http_Error w msg c =
     (let w1 = Header_Set w ''Content-Type'' ''text/plain; charset=utf-8'';
          w2 = Header_Set w1 ''X-Content-Type-Options'' ''nosniff'';
          w3 = WriteHeader w2 c
      in Write w3 (Plain (msg @ [CHR 0x0A])))"

section \<open>The server\<close>

text \<open>
  The \<^verbatim>\<open>Database\<close> interface: the three methods of an implementation over its state
  \<open>'db\<close>. The server holds such an implementation (\<^verbatim>\<open>s.db\<close>); the state behind it
  is passed through every handler. \<^verbatim>\<open>MemoryDatabase\<close> is the implementation that
  \<^verbatim>\<open>main\<close> wires in.
  The server's logger only prints; its field and the lines it prints are left out.
\<close>

record 'db Database =
  GetAlbums :: "'db \<Rightarrow> 'db \<times> Album list \<times> error option"
  GetAlbumByID :: "'db \<Rightarrow> string \<Rightarrow> 'db \<times> Album \<times> error option"
  AddAlbum :: "'db \<Rightarrow> Album \<Rightarrow> 'db \<times> error option"

record 'db Server =
  db :: "'db Database"

definition NewServer :: "'db Database \<Rightarrow> 'db Server" where
  "NewServer database = \<lparr>db = database\<rparr>"

definition MemoryDatabase_methods :: "MemoryDatabase Database" where
  "MemoryDatabase_methods =
     \<lparr>GetAlbums = MemoryDatabase_GetAlbums,
      GetAlbumByID = MemoryDatabase_GetAlbumByID,
      AddAlbum = MemoryDatabase_AddAlbum\<rparr>"

text \<open>
  \<^verbatim>\<open>json.Unmarshal(b, &album)\<close> into a zero album is a parameter of the handlers: a
  function from the bytes of the body to the decoded album or to the text of the
  decoding error (\<^verbatim>\<open>err.Error()\<close>).
\<close>

type_synonym Unmarshal = "string \<Rightarrow> string + Album"

text \<open>
  A compiled regular expression is represented by its \<^verbatim>\<open>FindStringSubmatch\<close>: the
  whole match followed by the capture groups, or the empty (nil) slice when the text
  does not match. For \<^verbatim>\<open>^/albums/([^/]+)$\<close> the text matches when it is \<^verbatim>\<open>/albums/\<close>
  followed by one or more bytes other than a slash, up to the end of the text.
\<close>

type_synonym Regexp = "string \<Rightarrow> string list"

definition reAlbumsID :: Regexp where
  "reAlbumsID path =
     (let rest = drop 8 path
      in if take 8 path = ''/albums/'' \<and> rest \<noteq> [] \<and> CHR ''/'' \<notin> set rest
         then [path, rest] else [])"

text \<open>
  \<^verbatim>\<open>match\<close> assigns the capture groups to the variables behind the pointers
  \<^verbatim>\<open>vars\<close>, here passed and returned as the list of their values. Indexing \<^verbatim>\<open>vars\<close>
  beyond its length panics: the result is \<open>None\<close>.
\<close>

fun bind_vars :: "string list \<Rightarrow> string list \<Rightarrow> string list option" where
  "bind_vars [] vars = Some vars"
| "bind_vars (m # ms) [] = None"
| "bind_vars (m # ms) (v # vars) = map_option ((#) m) (bind_vars ms vars)"

definition match :: "string \<Rightarrow> Regexp \<Rightarrow> string list \<Rightarrow> (bool \<times> string list) option" where
  "match path pattern vars =
     (let matches = pattern path
      in if length matches \<le> 0 then Some (False, vars)
         else map_option (Pair True) (bind_vars (tl matches) vars))"

definition writeJSON :: "ResponseWriter \<Rightarrow> int \<Rightarrow> any \<Rightarrow> ResponseWriter" where
  "writeJSON w status v =
     (let w1 = Header_Set w ''Content-Type'' ''application/json; charset=utf-8''
      in case json_MarshalIndent v of
           Inl err \<Rightarrow>
             http_Error w1 ([CHR ''{'', CHR 0x22] @ ''error'' @ [CHR 0x22, CHR '':'', CHR 0x22]
                            @ ErrorInternal @ [CHR 0x22, CHR ''}''])
               StatusInternalServerError
         | Inr b \<Rightarrow> Write (WriteHeader w1 status) (Indented b))"

definition jsonError ::
  "ResponseWriter \<Rightarrow> int \<Rightarrow> string \<Rightarrow> (string \<times> map_value) list \<Rightarrow> ResponseWriter" where
  "jsonError w status err data =
     writeJSON w status (ResponseValue \<lparr>Status = status, Error = err, Data = data\<rparr>)"

text \<open>
  \<^verbatim>\<open>readJSON\<close> returns the writer, the value behind \<^verbatim>\<open>v\<close> and the boolean result.
\<close>

definition readJSON ::
  "Unmarshal \<Rightarrow> ResponseWriter \<Rightarrow> Request \<Rightarrow> Album \<Rightarrow> ResponseWriter \<times> Album \<times> bool" where
  "readJSON json_Unmarshal w r v =
     (case Body r of
        Inl err \<Rightarrow> (jsonError w StatusInternalServerError ErrorInternal [], v, False)
      | Inr b \<Rightarrow>
          (case json_Unmarshal b of
             Inl msg \<Rightarrow>
               (jsonError w StatusBadRequest ErrorMalformedJSON [(''message'', Str msg)], v, False)
           | Inr v' \<Rightarrow> (w, v', True)))"

definition getAlbums :: "'db Server \<Rightarrow> 'db \<Rightarrow> ResponseWriter \<Rightarrow> Request \<Rightarrow> 'db \<times> ResponseWriter" where
  "getAlbums s d w r =
     (case GetAlbums (db s) d of
        (d', albums', err) \<Rightarrow>
          if err \<noteq> None then (d', jsonError w StatusInternalServerError ErrorDatabase [])
          else (d', writeJSON w StatusOK (AlbumSlice albums')))"

text \<open>
  The validation block of \<^verbatim>\<open>addAlbum\<close> (the map \<^verbatim>\<open>issues\<close> and the four tests that
  fill it), one assignment after the other.
\<close>

definition addAlbum_issues :: "Album \<Rightarrow> (string \<times> map_value) list" where
  "addAlbum_issues album =
     (let issues0 = [];
          issues1 = (if ID album = []
                     then AList.update ''id'' (Issue (validationIssue ''required'' [])) issues0
                     else issues0);
          issues2 = (if Title album = []
                     then AList.update ''title'' (Issue (validationIssue ''required'' [])) issues1
                     else issues1);
          issues3 = (if Artist album = []
                     then AList.update ''artist'' (Issue (validationIssue ''required'' [])) issues2
                     else issues2);
          issues4 = (if Price album < 0 \<or> Price album \<ge> 100000
                     then AList.update ''price''
                            (Issue (validationIssue ''out-of-range''
                                      ''price must be between 0 and $1000'')) issues3
                     else issues3)
      in issues4)"

definition addAlbum ::
  "'db Server \<Rightarrow> Unmarshal \<Rightarrow> 'db \<Rightarrow> ResponseWriter \<Rightarrow> Request \<Rightarrow> 'db \<times> ResponseWriter" where
  "addAlbum s json_Unmarshal d w r =
     (case readJSON json_Unmarshal w r Album_zero of
        (w1, album, ok) \<Rightarrow>
          if \<not> ok then (d, w1)
          else let issues = addAlbum_issues album
               in if length issues > 0
                  then (d, jsonError w1 StatusBadRequest ErrorValidation issues)
                  else (case AddAlbum (db s) d album of
                          (d', err) \<Rightarrow>
                            if errors_Is err ErrAlreadyExists
                            then (d', jsonError w1 StatusConflict ErrorAlreadyExists [])
                            else if err \<noteq> None
                            then (d', jsonError w1 StatusInternalServerError ErrorDatabase [])
                            else (d', writeJSON w1 StatusCreated (AlbumValue album))))"

definition getAlbumByID ::
  "'db Server \<Rightarrow> 'db \<Rightarrow> ResponseWriter \<Rightarrow> Request \<Rightarrow> string \<Rightarrow> 'db \<times> ResponseWriter" where
  "getAlbumByID s d w r id' =
     (case GetAlbumByID (db s) d id' of
        (d', album, err) \<Rightarrow>
          if errors_Is err ErrDoesNotExist
          then (d', jsonError w StatusNotFound ErrorNotFound [])
          else if err \<noteq> None
          then (d', jsonError w StatusInternalServerError ErrorDatabase [])
          else (d', writeJSON w StatusOK (AlbumValue album)))"

text \<open>
  \<^verbatim>\<open>ServeHTTP\<close>: the cases of the \<^verbatim>\<open>switch\<close> in their order. A panic of \<^verbatim>\<open>match\<close>
  would end the handler without a response: \<open>None\<close>.
\<close>

definition ServeHTTP ::
  "'db Server \<Rightarrow> Unmarshal \<Rightarrow> 'db \<Rightarrow> ResponseWriter \<Rightarrow> Request \<Rightarrow> ('db \<times> ResponseWriter) option" where
  "ServeHTTP s json_Unmarshal d w r =
     (let path = URL_Path r; id0 = []
      in if path = ''/albums'' then
           (if Method r = ''GET'' then Some (getAlbums s d w r)
            else if Method r = ''POST'' then Some (addAlbum s json_Unmarshal d w r)
            else Some (d, jsonError (Header_Set w ''Allow'' ''GET, POST'')
                            StatusMethodNotAllowed ErrorMethodNotAllowed []))
         else
           (case match path reAlbumsID [id0] of
              None \<Rightarrow> None
            | Some (matched, vars) \<Rightarrow>
                if matched then
                  (let id' = hd vars
                   in if Method r = ''GET'' then Some (getAlbumByID s d w r id')
                      else Some (d, jsonError (Header_Set w ''Allow'' ''GET'')
                                      StatusMethodNotAllowed ErrorMethodNotAllowed []))
                else Some (d, jsonError w StatusNotFound ErrorNotFound [])))"

section \<open>Observing a run\<close>

text \<open>
  A member of the JSON object that a handler wrote, addressed by the path of keys
  leading to it; \<open>None\<close> when the writer does not hold exactly one JSON document or
  the path does not exist in it.
\<close>

fun member_path :: "string list \<Rightarrow> json \<Rightarrow> json option" where
  "member_path [] j = Some j"
| "member_path (k # ks) j =
     (case member k j of None \<Rightarrow> None | Some j' \<Rightarrow> member_path ks j')"

definition response_member :: "string list \<Rightarrow> ResponseWriter \<Rightarrow> json option" where
  "response_member ks w =
     (case written w of [Indented j] \<Rightarrow> member_path ks j | _ \<Rightarrow> None)"

text \<open>
  An implementation of \<^verbatim>\<open>Database\<close> whose state is the number of calls it has
  received: a handler that leaves this state as it found it has not called the store.
\<close>

definition counting_Database :: "nat Database" where
  "counting_Database =
     \<lparr>GetAlbums = (\<lambda>n. (Suc n, [], None)),
      GetAlbumByID = (\<lambda>n k. (Suc n, Album_zero, Some ErrDoesNotExist)),
      AddAlbum = (\<lambda>n a. (Suc n, None))\<rparr>"

section \<open>Properties of the in-memory database\<close>

lemma foldl_append_snd:
  "foldl (\<lambda>acc (k, album). acc @ [album]) acc xs = acc @ map snd xs"
  by (induction xs arbitrary: acc) auto

lemma insert_less_ID: "insert_less (\<lambda>a b. ID a < ID b) x xs = insort_key ID x xs"
  by (induction xs) auto

lemma sort_Slice_ID: "sort_Slice (\<lambda>a b. ID a < ID b) xs = sort_key ID xs"
  by (induction xs) (simp_all add: sort_Slice_def insert_less_ID)

lemma GetAlbums_eq:
  "MemoryDatabase_GetAlbums d = (d, sort_key ID (map snd (albums d)), None)"
  by (simp add: MemoryDatabase_GetAlbums_def foldl_append_snd sort_Slice_ID)

text \<open>The invariant holds of the new database and is kept by every \<^verbatim>\<open>AddAlbum\<close>.\<close>

lemma db_inv_New: "db_inv NewMemoryDatabase"
  by (simp add: db_inv_def NewMemoryDatabase_def)

lemma list_all_update:
  "list_all P al \<Longrightarrow> P (k, v) \<Longrightarrow> list_all P (AList.update k v al)"
  by (induction al) auto

lemma db_inv_AddAlbum: "db_inv d \<Longrightarrow> db_inv (fst (MemoryDatabase_AddAlbum d a))"
  by (auto simp: db_inv_def MemoryDatabase_AddAlbum_def distinct_update intro: list_all_update)

lemma map_snd_ID:
  "list_all (\<lambda>(k, album). ID album = k) al \<Longrightarrow> map ID (map snd al) = map fst al"
  by (induction al) auto

lemma db_inv_distinct_ID:
  assumes "db_inv d"
  shows "distinct (map ID (map snd (albums d)))"
proof -
  from assms have "map ID (map snd (albums d)) = map fst (albums d)"
    unfolding db_inv_def by (intro map_snd_ID) simp
  with assms show ?thesis unfolding db_inv_def by (simp only:)
qed

text \<open>Sorting by a key that tells all elements apart depends on the set of elements only.\<close>

lemma filter_key_distinct:
  "distinct (map f xs) \<Longrightarrow> x \<in> set xs \<Longrightarrow> filter (\<lambda>y. f x = f y) xs = [x]"
proof (induction xs)
  case Nil
  then show ?case by simp
next
  case (Cons a xs)
  show ?case
  proof (cases "x = a")
    case True
    with Cons.prems have "\<forall>y\<in>set xs. f a \<noteq> f y" by auto
    then have "filter (\<lambda>y. f a = f y) xs = []" by (simp add: filter_empty_conv)
    with True show ?thesis by simp
  next
    case False
    with Cons.prems have x: "x \<in> set xs" by simp
    then have "f x \<in> f ` set xs" by (rule imageI)
    with Cons.prems have "f x \<noteq> f a" by auto
    with Cons x show ?thesis by simp
  qed
qed

lemma distinct_map_sort_key: "distinct (map f (sort_key f xs)) = distinct (map f xs)"
  by (simp add: distinct_map)

lemma sort_key_distinct_cong:
  assumes "distinct (map f xs)" "distinct (map f ys)" "set xs = set ys"
  shows "sort_key f xs = sort_key f ys"
proof (rule properties_for_sort_key)
  have dx: "distinct xs" and dy: "distinct ys" using assms(1,2) by (auto simp: distinct_map)
  show "mset (sort_key f ys) = mset xs"
    using dx dy assms(3) by (simp add: set_eq_iff_mset_eq_distinct)
  show "sorted (map f (sort_key f ys))" by simp
  fix k assume "k \<in> set (sort_key f ys)"
  then have k: "k \<in> set ys" by simp
  have "distinct (map f (sort_key f ys))" using assms(2) by (simp only: distinct_map_sort_key)
  then have "filter (\<lambda>x. f k = f x) (sort_key f ys) = [k]"
    using k by (intro filter_key_distinct) simp_all
  moreover have "filter (\<lambda>x. f k = f x) xs = [k]"
    using k assms(1,3) by (intro filter_key_distinct) simp_all
  ultimately show "filter (\<lambda>x. f k = f x) (sort_key f ys) = filter (\<lambda>x. f k = f x) xs"
    by simp
qed

lemma main_db_albums: "albums main_db = [(''a1'', album_a1), (''a2'', album_a2)]"
  by (simp add: main_db_def MemoryDatabase_AddAlbum_def NewMemoryDatabase_def
      album_a1_def album_a2_def)

lemma main_db_rev_albums: "albums main_db_rev = [(''a2'', album_a2), (''a1'', album_a1)]"
  by (simp add: main_db_rev_def MemoryDatabase_AddAlbum_def NewMemoryDatabase_def
      album_a1_def album_a2_def)

text \<open>
  C1. An album whose id is not stored yet is added without error, and looking its id
  up in the resulting database returns that album with a nil error.
\<close>

theorem AddAlbum_then_GetAlbumByID:
  "map_of (albums d) (ID A) = None \<Longrightarrow>
     snd (MemoryDatabase_AddAlbum d A) = None
   \<and> snd (MemoryDatabase_GetAlbumByID (fst (MemoryDatabase_AddAlbum d A)) (ID A)) = (A, None)"
  by (simp add: MemoryDatabase_AddAlbum_def MemoryDatabase_GetAlbumByID_def update_conv')

theorem AddAlbum_then_GetAlbumByID_witness:
  "map_of (albums NewMemoryDatabase) (ID album_a1) = None
   \<and> snd (MemoryDatabase_AddAlbum NewMemoryDatabase album_a1) = None
   \<and> snd (MemoryDatabase_GetAlbumByID
            (fst (MemoryDatabase_AddAlbum NewMemoryDatabase album_a1)) (ID album_a1))
       = (album_a1, None)"
proof -
  have h: "map_of (albums NewMemoryDatabase) (ID album_a1) = None"
    by (simp add: NewMemoryDatabase_def)
  from h AddAlbum_then_GetAlbumByID [OF h] show ?thesis by simp
qed

text \<open>
  C2. Adding an album whose id is already stored returns \<^verbatim>\<open>ErrAlreadyExists\<close> and
  leaves the database as it was; in particular the record stored under that id is
  still the old one.
\<close>

theorem AddAlbum_existing_id:
  "map_of (albums d) (ID A) = Some B \<Longrightarrow>
     MemoryDatabase_AddAlbum d A = (d, Some ErrAlreadyExists)
   \<and> map_of (albums (fst (MemoryDatabase_AddAlbum d A))) (ID A) = Some B"
  by (simp add: MemoryDatabase_AddAlbum_def)

theorem AddAlbum_existing_id_witness:
  "map_of (albums main_db) (ID (album_a2\<lparr>ID := ''a1''\<rparr>)) = Some album_a1
   \<and> MemoryDatabase_AddAlbum main_db (album_a2\<lparr>ID := ''a1''\<rparr>) = (main_db, Some ErrAlreadyExists)
   \<and> map_of (albums (fst (MemoryDatabase_AddAlbum main_db (album_a2\<lparr>ID := ''a1''\<rparr>))))
        (ID (album_a2\<lparr>ID := ''a1''\<rparr>)) = Some album_a1"
proof -
  have h: "map_of (albums main_db) (ID (album_a2\<lparr>ID := ''a1''\<rparr>)) = Some album_a1"
    by (simp add: main_db_albums)
  from h AddAlbum_existing_id [OF h] show ?thesis by simp
qed

text \<open>
  C3. \<^verbatim>\<open>GetAlbums\<close> returns a nil error and a slice that holds exactly the stored
  albums, each once, in strictly ascending order of their ids (bytewise lexicographic
  order). The slice is the same for every database holding the same entries, however
  the map arranges them, so it does not depend on the order of insertion.
\<close>

theorem GetAlbums_sorted_by_ID:
  assumes "db_inv d"
  shows "snd (snd (MemoryDatabase_GetAlbums d)) = None
       \<and> mset (fst (snd (MemoryDatabase_GetAlbums d))) = mset (map snd (albums d))
       \<and> sorted_wrt (\<lambda>a b. ID a < ID b) (fst (snd (MemoryDatabase_GetAlbums d)))
       \<and> (\<forall>d'. db_inv d' \<and> set (albums d') = set (albums d) \<longrightarrow>
             fst (snd (MemoryDatabase_GetAlbums d')) = fst (snd (MemoryDatabase_GetAlbums d)))"
proof -
  let ?xs = "map snd (albums d)"
  have dist: "distinct (map ID ?xs)" using assms by (rule db_inv_distinct_ID)
  have "sorted (map ID (sort_key ID ?xs))" by simp
  moreover have "distinct (map ID (sort_key ID ?xs))"
    using dist by (simp only: distinct_map_sort_key)
  ultimately have "sorted_wrt (<) (map ID (sort_key ID ?xs))"
    by (simp add: strict_sorted_iff)
  then have strict: "sorted_wrt (\<lambda>a b. ID a < ID b) (sort_key ID ?xs)"
    by (simp add: sorted_wrt_map)
  have indep: "sort_key ID (map snd (albums d')) = sort_key ID ?xs"
    if "db_inv d'" "set (albums d') = set (albums d)" for d'
  proof (rule sort_key_distinct_cong)
    show "distinct (map ID (map snd (albums d')))" using that(1) by (rule db_inv_distinct_ID)
    show "distinct (map ID ?xs)" by (rule dist)
    show "set (map snd (albums d')) = set ?xs" using that(2) by simp
  qed
  show ?thesis using strict indep by (simp add: GetAlbums_eq)
qed

theorem GetAlbums_sorted_by_ID_witness:
  "db_inv main_db \<and> db_inv main_db_rev \<and> albums main_db_rev \<noteq> albums main_db
   \<and> snd (snd (MemoryDatabase_GetAlbums main_db)) = None
   \<and> fst (snd (MemoryDatabase_GetAlbums main_db)) = [album_a1, album_a2]
   \<and> fst (snd (MemoryDatabase_GetAlbums main_db_rev))
       = fst (snd (MemoryDatabase_GetAlbums main_db))"
proof -
  have inv: "db_inv main_db" and inv': "db_inv main_db_rev"
    by (simp_all add: db_inv_def main_db_albums main_db_rev_albums album_a1_def album_a2_def)
  have same: "set (albums main_db_rev) = set (albums main_db)"
    by (auto simp add: main_db_albums main_db_rev_albums)
  have val: "fst (snd (MemoryDatabase_GetAlbums main_db)) = [album_a1, album_a2]"
    by (simp add: MemoryDatabase_GetAlbums_def sort_Slice_def main_db_albums
        album_a1_def album_a2_def)
  have ne: "albums main_db_rev \<noteq> albums main_db"
    by (simp add: main_db_albums main_db_rev_albums)
  from GetAlbums_sorted_by_ID [OF inv] inv inv' same val ne show ?thesis by blast
qed

text \<open>
  C10. The two read methods return the database they were given: listing the albums
  and looking an id up, found or not, leave the collection as it was.
\<close>

theorem reads_keep_database:
  "fst (MemoryDatabase_GetAlbums d) = d \<and> fst (MemoryDatabase_GetAlbumByID d id') = d"
  by (simp add: GetAlbums_eq MemoryDatabase_GetAlbumByID_def split: option.split)

section \<open>Properties of the handlers\<close>

text \<open>What \<^verbatim>\<open>writeJSON\<close> and \<^verbatim>\<open>jsonError\<close> leave in a writer nothing was written to.\<close>

lemmas status_defs = StatusOK_def StatusCreated_def StatusBadRequest_def StatusNotFound_def
  StatusMethodNotAllowed_def StatusConflict_def StatusInternalServerError_def

lemmas kind_defs = ErrorAlreadyExists_def ErrorDatabase_def ErrorInternal_def
  ErrorMalformedJSON_def ErrorMethodNotAllowed_def ErrorNotFound_def ErrorValidation_def

lemma MarshalIndent_Inr: "\<exists>j. json_MarshalIndent v = Inr j"
  by (cases v) simp_all

lemma writeJSON_unwritten:
  assumes "statusCode w = None" "written w = []" "json_MarshalIndent v = Inr j"
  shows "writeJSON w status v =
     w\<lparr>Header := (Header w)(''Content-Type'' \<mapsto> ''application/json; charset=utf-8''),
       statusCode := Some status, written := [Indented j]\<rparr>"
  using assms by (simp add: writeJSON_def Header_Set_def WriteHeader_def Write_def)

lemma jsonError_unwritten:
  assumes "statusCode w = None" "written w = []"
  shows "jsonError w status err data =
     w\<lparr>Header := (Header w)(''Content-Type'' \<mapsto> ''application/json; charset=utf-8''),
       statusCode := Some status,
       written := [Indented (marshal_response \<lparr>Status = status, Error = err, Data = data\<rparr>)]\<rparr>"
  using assms by (simp add: jsonError_def writeJSON_unwritten)

text \<open>Sorting the keys of a map for encoding does not change what is found under a key.\<close>

lemma map_of_sort_key_fst:
  assumes "distinct (map fst m)"
  shows "map_of (sort_key fst m) = map_of m"
proof (rule map_of_inject_set [THEN iffD2])
  show "distinct (map fst (sort_key fst m))" using assms by (simp add: distinct_map)
  show "distinct (map fst m)" by (rule assms)
  show "set (sort_key fst m) = set m" by simp
qed

lemma map_of_map_value:
  "map_of (map (\<lambda>(k, v). (k, f v)) m) k = map_option f (map_of m k)"
  by (induction m) auto

lemma member_marshal_map:
  "distinct (map fst m) \<Longrightarrow> member k (marshal_map m) = map_option marshal_map_value (map_of m k)"
  by (simp add: marshal_map_def map_of_map_value map_of_sort_key_fst)

text \<open>The map \<^verbatim>\<open>issues\<close>: one entry for each field that breaks its rule.\<close>

lemma issues_distinct: "distinct (map fst (addAlbum_issues a))"
  by (simp add: addAlbum_issues_def Let_def)

lemma issues_empty_iff:
  "addAlbum_issues a = [] \<longleftrightarrow>
     ID a \<noteq> [] \<and> Title a \<noteq> [] \<and> Artist a \<noteq> [] \<and> 0 \<le> Price a \<and> Price a < 100000"
  by (auto simp add: addAlbum_issues_def Let_def)

lemma issues_id:
  "map_of (addAlbum_issues a) ''id'' =
     (if ID a = [] then Some (Issue (validationIssue ''required'' [])) else None)"
  by (simp add: addAlbum_issues_def Let_def update_conv')

lemma issues_title:
  "map_of (addAlbum_issues a) ''title'' =
     (if Title a = [] then Some (Issue (validationIssue ''required'' [])) else None)"
  by (simp add: addAlbum_issues_def Let_def update_conv')

lemma issues_artist:
  "map_of (addAlbum_issues a) ''artist'' =
     (if Artist a = [] then Some (Issue (validationIssue ''required'' [])) else None)"
  by (simp add: addAlbum_issues_def Let_def update_conv')

lemma issues_price:
  "map_of (addAlbum_issues a) ''price'' =
     (if Price a < 0 \<or> 100000 \<le> Price a
      then Some (Issue (validationIssue ''out-of-range'' ''price must be between 0 and $1000''))
      else None)"
  by (simp add: addAlbum_issues_def Let_def update_conv')

text \<open>\<^verbatim>\<open>addAlbum\<close> once the body has been read and decoded.\<close>

lemma addAlbum_decoded:
  assumes "Body r = Inr b" "json_Unmarshal b = Inr a"
  shows "addAlbum s json_Unmarshal d w r =
     (if addAlbum_issues a \<noteq> [] then (d, jsonError w StatusBadRequest ErrorValidation (addAlbum_issues a))
      else case AddAlbum (db s) d a of
             (d', err) \<Rightarrow>
               if errors_Is err ErrAlreadyExists
               then (d', jsonError w StatusConflict ErrorAlreadyExists [])
               else if err \<noteq> None
               then (d', jsonError w StatusInternalServerError ErrorDatabase [])
               else (d', writeJSON w StatusCreated (AlbumValue a)))"
  using assms by (simp add: addAlbum_def readJSON_def Let_def)

lemma response_member_jsonError:
  "response_member (k # ks) (jsonError NewResponseWriter status err data) =
     (case member k (marshal_response \<lparr>Status = status, Error = err, Data = data\<rparr>) of
        None \<Rightarrow> None | Some j \<Rightarrow> member_path ks j)"
  by (simp add: jsonError_unwritten NewResponseWriter_def response_member_def)

lemma statusCode_jsonError:
  "statusCode (jsonError NewResponseWriter status err data) = Some status"
  by (simp add: jsonError_unwritten NewResponseWriter_def)

lemma member_data_marshal_response:
  "member ''data'' (marshal_response r) = (if Data r = [] then None else Some (marshal_map (Data r)))"
  by (simp add: marshal_response_def)

lemma response_data_jsonError:
  "distinct (map fst data) \<Longrightarrow>
   response_member [''data'', k] (jsonError NewResponseWriter status err data) =
     map_option marshal_map_value (map_of data k)"
  by (cases "data = []")
     (simp_all add: response_member_jsonError member_data_marshal_response member_marshal_map
        split: option.split)

lemma response_data_writeJSON_Album:
  "response_member (''data'' # ks) (writeJSON NewResponseWriter status (AlbumValue a)) = None"
  by (simp add: writeJSON_unwritten NewResponseWriter_def response_member_def marshal_Album_def)

text \<open>Which paths \<^verbatim>\<open>reAlbumsID\<close> matches, and what \<^verbatim>\<open>match\<close> binds.\<close>

lemma reAlbumsID_append:
  "reAlbumsID (''/albums/'' @ id') =
     (if id' \<noteq> [] \<and> CHR ''/'' \<notin> set id' then [''/albums/'' @ id', id'] else [])"
  by (simp add: reAlbumsID_def)

lemma reAlbumsID_other:
  assumes "\<forall>id'. path = ''/albums/'' @ id' \<longrightarrow> id' = [] \<or> CHR ''/'' \<in> set id'"
  shows "reAlbumsID path = []"
proof (cases "take 8 path = ''/albums/''")
  case True
  then have "path = ''/albums/'' @ drop 8 path"
    by (metis append_take_drop_id)
  with assms have "drop 8 path = [] \<or> CHR ''/'' \<in> set (drop 8 path)" by blast
  then show ?thesis by (auto simp add: reAlbumsID_def Let_def)
next
  case False
  then show ?thesis by (simp add: reAlbumsID_def Let_def)
qed

lemma match_reAlbumsID_append:
  "match (''/albums/'' @ id') reAlbumsID [v] =
     Some (if id' \<noteq> [] \<and> CHR ''/'' \<notin> set id' then (True, [id']) else (False, [v]))"
  unfolding match_def reAlbumsID_append by simp

lemma match_reAlbumsID_other:
  assumes "\<forall>id'. path = ''/albums/'' @ id' \<longrightarrow> id' = [] \<or> CHR ''/'' \<in> set id'"
  shows "match path reAlbumsID [v] = Some (False, [v])"
  by (simp add: match_def reAlbumsID_other [OF assms])

text \<open>The two error replies of the router, written to a new writer.\<close>

lemma not_found_reply:
  "jsonError NewResponseWriter StatusNotFound ErrorNotFound [] =
     \<lparr>Header = [''Content-Type'' \<mapsto> ''application/json; charset=utf-8''],
      statusCode = Some 404,
      written = [Indented (JObject [(''status'', JNumber 404), (''error'', JString ''not-found'')])]\<rparr>"
  by (simp add: jsonError_unwritten NewResponseWriter_def marshal_response_def status_defs kind_defs)

lemma method_not_allowed_reply:
  "jsonError (Header_Set NewResponseWriter ''Allow'' allow) StatusMethodNotAllowed
       ErrorMethodNotAllowed [] =
     \<lparr>Header = [''Allow'' \<mapsto> allow, ''Content-Type'' \<mapsto> ''application/json; charset=utf-8''],
      statusCode = Some 405,
      written = [Indented (JObject [(''status'', JNumber 405),
                                    (''error'', JString ''method-not-allowed'')])]\<rparr>"
  by (simp add: jsonError_unwritten Header_Set_def NewResponseWriter_def marshal_response_def
      status_defs kind_defs)

text \<open>Every call of a method of the counting database changes its state.\<close>

lemma counting_Database_counts:
  "fst (AddAlbum counting_Database n a) = Suc n
   \<and> fst (GetAlbums counting_Database n) = Suc n
   \<and> fst (GetAlbumByID counting_Database n k) = Suc n"
  by (simp add: counting_Database_def)

text \<open>
  C4. When the body of a create request decodes to an album, the response carries an
  issue for the field \<^verbatim>\<open>price\<close> exactly when the price is negative or at least
  100000, and the issue is then of kind \<^verbatim>\<open>out-of-range\<close> inside a 400 validation
  response. So 100000 and -1 are reported, 99999 and 0 are not.
\<close>

theorem addAlbum_price_range:
  assumes "Body r = Inr b" and "json_Unmarshal b = Inr a"
    and "addAlbum s json_Unmarshal d NewResponseWriter r = (d', w')"
  shows "response_member [''data'', ''price''] w' =
           (if Price a < 0 \<or> 100000 \<le> Price a
            then Some (JObject [(''error'', JString ''out-of-range''),
                                (''message'', JString ''price must be between 0 and $1000'')])
            else None)
       \<and> (Price a < 0 \<or> 100000 \<le> Price a \<longrightarrow>
            statusCode w' = Some 400 \<and> response_member [''error''] w' = Some (JString ''validation''))"
proof -
  note dec = addAlbum_decoded [where json_Unmarshal = json_Unmarshal and s = s and d = d
      and w = NewResponseWriter, OF assms(1,2)]
  show ?thesis
proof (cases "addAlbum_issues a = []")
  case True
  then have ok: "\<not> (Price a < 0 \<or> 100000 \<le> Price a)" by (simp add: issues_empty_iff)
  obtain d1 err where add: "AddAlbum (db s) d a = (d1, err)" by (cases "AddAlbum (db s) d a")
  have "response_member [''data'', ''price''] w' = None"
    using assms(3) True add
    by (auto simp add: dec response_data_jsonError
        response_data_writeJSON_Album split: if_splits)
  with ok show ?thesis by simp
next
  case False
  then have w': "w' = jsonError NewResponseWriter StatusBadRequest ErrorValidation (addAlbum_issues a)"
    using assms(3) by (simp add: dec)
  have price: "response_member [''data'', ''price''] w' =
      map_option marshal_map_value (map_of (addAlbum_issues a) ''price'')"
    unfolding w' by (rule response_data_jsonError [OF issues_distinct])
  have st: "statusCode w' = Some 400"
    by (simp add: w' statusCode_jsonError status_defs)
  have er: "response_member [''error''] w' = Some (JString ''validation'')"
    by (simp add: w' response_member_jsonError marshal_response_def kind_defs)
  show ?thesis by (simp add: price issues_price st er)
qed
qed

theorem addAlbum_price_range_witness:
  "map (\<lambda>p. response_member [''data'', ''price'']
              (snd (addAlbum (NewServer MemoryDatabase_methods)
                      (\<lambda>b. Inr (album_a1\<lparr>Price := p\<rparr>)) NewMemoryDatabase NewResponseWriter
                      \<lparr>Method = ''POST'', URL_Path = ''/albums'', Body = Inr ''{}''\<rparr>)))
       [100000, - 1, 99999, 0]
   = [Some (JObject [(''error'', JString ''out-of-range''),
                     (''message'', JString ''price must be between 0 and $1000'')]),
      Some (JObject [(''error'', JString ''out-of-range''),
                     (''message'', JString ''price must be between 0 and $1000'')]),
      None, None]
   \<and> map (\<lambda>p. statusCode
              (snd (addAlbum (NewServer MemoryDatabase_methods)
                      (\<lambda>b. Inr (album_a1\<lparr>Price := p\<rparr>)) NewMemoryDatabase NewResponseWriter
                      \<lparr>Method = ''POST'', URL_Path = ''/albums'', Body = Inr ''{}''\<rparr>)))
       [100000, - 1]
   = [Some 400, Some 400]"
proof -
  let ?r = "\<lparr>Method = ''POST'', URL_Path = ''/albums'', Body = Inr ''{}''\<rparr>"
  let ?run = "\<lambda>p. addAlbum (NewServer MemoryDatabase_methods)
      (\<lambda>b. Inr (album_a1\<lparr>Price := p\<rparr>)) NewMemoryDatabase NewResponseWriter ?r"
  have body: "Body ?r = Inr ''{}''" by simp
  have key: "response_member [''data'', ''price''] (snd (?run p)) =
           (if p < 0 \<or> 100000 \<le> p
            then Some (JObject [(''error'', JString ''out-of-range''),
                                (''message'', JString ''price must be between 0 and $1000'')])
            else None)
       \<and> (p < 0 \<or> 100000 \<le> p \<longrightarrow> statusCode (snd (?run p)) = Some 400)" for p
    using addAlbum_price_range [where r = ?r and b = "''{}''" and a = "album_a1\<lparr>Price := p\<rparr>"
        and json_Unmarshal = "\<lambda>b. Inr (album_a1\<lparr>Price := p\<rparr>)"
        and s = "NewServer MemoryDatabase_methods" and d = NewMemoryDatabase
        and d' = "fst (?run p)" and w' = "snd (?run p)", OF body]
    by simp
  show ?thesis
    using key [of 100000] key [of "- 1"] key [of 99999] key [of 0] by simp
qed

text \<open>
  C5. When the decoded album breaks any of the four field rules, the handler answers
  once, with status 400 and kind \<^verbatim>\<open>validation\<close>, and the data of that one response
  holds an issue for every field that breaks its rule and for no other field. The
  state of the database behind the server comes back as it was, for every
  implementation of the interface, so the store was not called.
\<close>

theorem addAlbum_collects_issues:
  assumes "Body r = Inr b" and "json_Unmarshal b = Inr a"
    and "ID a = [] \<or> Title a = [] \<or> Artist a = [] \<or> Price a < 0 \<or> 100000 \<le> Price a"
    and "addAlbum s json_Unmarshal d NewResponseWriter r = (d', w')"
  shows "d' = d \<and> statusCode w' = Some 400
       \<and> response_member [''status''] w' = Some (JNumber 400)
       \<and> response_member [''error''] w' = Some (JString ''validation'')
       \<and> response_member [''data'', ''id''] w' =
            (if ID a = [] then Some (JObject [(''error'', JString ''required'')]) else None)
       \<and> response_member [''data'', ''title''] w' =
            (if Title a = [] then Some (JObject [(''error'', JString ''required'')]) else None)
       \<and> response_member [''data'', ''artist''] w' =
            (if Artist a = [] then Some (JObject [(''error'', JString ''required'')]) else None)
       \<and> response_member [''data'', ''price''] w' =
            (if Price a < 0 \<or> 100000 \<le> Price a
             then Some (JObject [(''error'', JString ''out-of-range''),
                                 (''message'', JString ''price must be between 0 and $1000'')])
             else None)"
proof -
  note dec = addAlbum_decoded [where json_Unmarshal = json_Unmarshal and s = s and d = d
      and w = NewResponseWriter, OF assms(1,2)]
  from assms(3) have ne: "addAlbum_issues a \<noteq> []" by (auto simp add: issues_empty_iff)
  with assms(4) have d': "d' = d"
    and w': "w' = jsonError NewResponseWriter StatusBadRequest ErrorValidation (addAlbum_issues a)"
    by (simp_all add: dec)
  have data: "response_member [''data'', k] w' =
      map_option marshal_map_value (map_of (addAlbum_issues a) k)" for k
    unfolding w' by (rule response_data_jsonError [OF issues_distinct])
  have st: "statusCode w' = Some 400"
    by (simp add: w' statusCode_jsonError status_defs)
  have sj: "response_member [''status''] w' = Some (JNumber 400)"
    by (simp add: w' response_member_jsonError marshal_response_def status_defs)
  have er: "response_member [''error''] w' = Some (JString ''validation'')"
    by (simp add: w' response_member_jsonError marshal_response_def kind_defs)
  have i1: "response_member [''data'', ''id''] w' =
            (if ID a = [] then Some (JObject [(''error'', JString ''required'')]) else None)"
    by (simp add: data issues_id)
  have i2: "response_member [''data'', ''title''] w' =
            (if Title a = [] then Some (JObject [(''error'', JString ''required'')]) else None)"
    by (simp add: data issues_title)
  have i3: "response_member [''data'', ''artist''] w' =
            (if Artist a = [] then Some (JObject [(''error'', JString ''required'')]) else None)"
    by (simp add: data issues_artist)
  have i4: "response_member [''data'', ''price''] w' =
            (if Price a < 0 \<or> 100000 \<le> Price a
             then Some (JObject [(''error'', JString ''out-of-range''),
                                 (''message'', JString ''price must be between 0 and $1000'')])
             else None)"
    by (simp add: data issues_price)
  from d' st sj er i1 i2 i3 i4 show ?thesis by (intro conjI)
qed

theorem addAlbum_collects_issues_witness:
  "fst (addAlbum (NewServer counting_Database)
          (\<lambda>b. Inr \<lparr>ID = ''a3'', Title = [], Artist = [], Price = 1500\<rparr>) 0 NewResponseWriter
          \<lparr>Method = ''POST'', URL_Path = ''/albums'', Body = Inr ''{}''\<rparr>) = 0
   \<and> map (\<lambda>ks. response_member ks
        (snd (addAlbum (NewServer counting_Database)
          (\<lambda>b. Inr \<lparr>ID = ''a3'', Title = [], Artist = [], Price = 1500\<rparr>) 0 NewResponseWriter
          \<lparr>Method = ''POST'', URL_Path = ''/albums'', Body = Inr ''{}''\<rparr>)))
       [[''status''], [''error''], [''data'', ''title''], [''data'', ''artist''],
        [''data'', ''id''], [''data'', ''price'']]
     = [Some (JNumber 400), Some (JString ''validation''),
        Some (JObject [(''error'', JString ''required'')]),
        Some (JObject [(''error'', JString ''required'')]), None, None]"
proof -
  let ?r = "\<lparr>Method = ''POST'', URL_Path = ''/albums'', Body = Inr ''{}''\<rparr>"
  let ?a = "\<lparr>ID = ''a3'', Title = [], Artist = [], Price = 1500\<rparr>"
  let ?run = "addAlbum (NewServer counting_Database) (\<lambda>b. Inr ?a) 0 NewResponseWriter ?r"
  have body: "Body ?r = Inr ''{}''" by simp
  have bad: "ID ?a = [] \<or> Title ?a = [] \<or> Artist ?a = [] \<or> Price ?a < 0 \<or> 100000 \<le> Price ?a"
    by simp
  have run: "?run = (fst ?run, snd ?run)" by simp
  from addAlbum_collects_issues [where r = ?r and b = "''{}''" and a = ?a and json_Unmarshal = "\<lambda>b. Inr ?a"
        and s = "NewServer counting_Database" and d = 0, OF body _ bad run]
  show ?thesis by simp
qed

text \<open>
  C6. Looking up an id that is not stored returns \<^verbatim>\<open>ErrDoesNotExist\<close>, and a GET
  request for \<^verbatim>\<open>/albums/\<close> followed by that id is answered with status 404 and the
  body \<^verbatim>\<open>{"status":404,"error":"not-found"}\<close>, the database left as it was.
\<close>

theorem missing_album_not_found:
  assumes "map_of (albums d) id' = None"
  shows "snd (MemoryDatabase_GetAlbumByID d id') = (Album_zero, Some ErrDoesNotExist)
       \<and> ServeHTTP (NewServer MemoryDatabase_methods) u d NewResponseWriter
            \<lparr>Method = ''GET'', URL_Path = ''/albums/'' @ id', Body = body\<rparr> =
          Some (d, \<lparr>Header = [''Content-Type'' \<mapsto> ''application/json; charset=utf-8''],
                    statusCode = Some 404,
                    written = [Indented (JObject [(''status'', JNumber 404),
                                                  (''error'', JString ''not-found'')])]\<rparr>)"
proof -
  let ?r = "\<lparr>Method = ''GET'', URL_Path = ''/albums/'' @ id', Body = body\<rparr>"
  have get: "MemoryDatabase_GetAlbumByID d id' = (d, Album_zero, Some ErrDoesNotExist)"
    using assms by (simp add: MemoryDatabase_GetAlbumByID_def)
  have handler: "getAlbumByID (NewServer MemoryDatabase_methods) d NewResponseWriter ?r id' =
      (d, jsonError NewResponseWriter StatusNotFound ErrorNotFound [])"
    by (simp add: getAlbumByID_def NewServer_def MemoryDatabase_methods_def get errors_Is_def)
  have m: "match (URL_Path ?r) reAlbumsID [[]] =
      Some (if id' \<noteq> [] \<and> CHR ''/'' \<notin> set id' then (True, [id']) else (False, [[]]))"
    by (simp only: Request.simps match_reAlbumsID_append)
  have "''/albums/'' @ id' \<noteq> ''/albums''" by simp
  then have "ServeHTTP (NewServer MemoryDatabase_methods) u d NewResponseWriter ?r =
      Some (d, jsonError NewResponseWriter StatusNotFound ErrorNotFound [])"
    unfolding ServeHTTP_def Let_def m using handler by simp
  with get show ?thesis by (simp add: not_found_reply)
qed

theorem missing_album_not_found_witness:
  "map_of (albums main_db) ''missing'' = None
   \<and> snd (MemoryDatabase_GetAlbumByID main_db ''missing'') = (Album_zero, Some ErrDoesNotExist)
   \<and> ServeHTTP (NewServer MemoryDatabase_methods) (\<lambda>b. Inl ''unexpected end of JSON input'')
        main_db NewResponseWriter
        \<lparr>Method = ''GET'', URL_Path = ''/albums/missing'', Body = Inr []\<rparr> =
      Some (main_db, \<lparr>Header = [''Content-Type'' \<mapsto> ''application/json; charset=utf-8''],
                      statusCode = Some 404,
                      written = [Indented (JObject [(''status'', JNumber 404),
                                                    (''error'', JString ''not-found'')])]\<rparr>)"
proof -
  have h: "map_of (albums main_db) ''missing'' = None"
    by (simp add: main_db_albums)
  from h missing_album_not_found [OF h, of "\<lambda>b. Inl ''unexpected end of JSON input''" "Inr []"]
  show ?thesis by simp
qed

text \<open>
  C7. Routing. The path \<^verbatim>\<open>/albums\<close> goes to the list handler on GET, to the create
  handler on POST, and to 405 with \<^verbatim>\<open>Allow: GET, POST\<close> on any other method. A path
  \<^verbatim>\<open>/albums/\<close> followed by one or more bytes none of which is a slash goes to the
  lookup handler with those bytes as the id on GET, and to 405 with \<^verbatim>\<open>Allow: GET\<close>
  on any other method. Every other path, among them \<^verbatim>\<open>/albums/\<close> with nothing after
  it and paths with a slash inside the id, is answered with 404. In each case the
  handler returns; it does not panic.
\<close>

theorem ServeHTTP_routing:
  "(URL_Path r = ''/albums'' \<and> Method r = ''GET'' \<longrightarrow>
      ServeHTTP s u d NewResponseWriter r = Some (getAlbums s d NewResponseWriter r))
 \<and> (URL_Path r = ''/albums'' \<and> Method r = ''POST'' \<longrightarrow>
      ServeHTTP s u d NewResponseWriter r = Some (addAlbum s u d NewResponseWriter r))
 \<and> (URL_Path r = ''/albums'' \<and> Method r \<noteq> ''GET'' \<and> Method r \<noteq> ''POST'' \<longrightarrow>
      ServeHTTP s u d NewResponseWriter r =
        Some (d, \<lparr>Header = [''Allow'' \<mapsto> ''GET, POST'',
                            ''Content-Type'' \<mapsto> ''application/json; charset=utf-8''],
                  statusCode = Some 405,
                  written = [Indented (JObject [(''status'', JNumber 405),
                                                (''error'', JString ''method-not-allowed'')])]\<rparr>))
 \<and> (\<forall>id'. URL_Path r = ''/albums/'' @ id' \<and> id' \<noteq> [] \<and> CHR ''/'' \<notin> set id' \<longrightarrow>
      (Method r = ''GET'' \<longrightarrow>
         ServeHTTP s u d NewResponseWriter r = Some (getAlbumByID s d NewResponseWriter r id'))
    \<and> (Method r \<noteq> ''GET'' \<longrightarrow>
         ServeHTTP s u d NewResponseWriter r =
           Some (d, \<lparr>Header = [''Allow'' \<mapsto> ''GET'',
                               ''Content-Type'' \<mapsto> ''application/json; charset=utf-8''],
                     statusCode = Some 405,
                     written = [Indented (JObject [(''status'', JNumber 405),
                                                   (''error'', JString ''method-not-allowed'')])]\<rparr>)))
 \<and> (URL_Path r \<noteq> ''/albums''
      \<and> (\<forall>id'. URL_Path r = ''/albums/'' @ id' \<longrightarrow> id' = [] \<or> CHR ''/'' \<in> set id') \<longrightarrow>
      ServeHTTP s u d NewResponseWriter r =
        Some (d, \<lparr>Header = [''Content-Type'' \<mapsto> ''application/json; charset=utf-8''],
                  statusCode = Some 404,
                  written = [Indented (JObject [(''status'', JNumber 404),
                                                (''error'', JString ''not-found'')])]\<rparr>))"
proof (intro conjI impI allI)
  assume "URL_Path r = ''/albums'' \<and> Method r = ''GET''"
  then show "ServeHTTP s u d NewResponseWriter r = Some (getAlbums s d NewResponseWriter r)"
    by (simp add: ServeHTTP_def)
next
  assume "URL_Path r = ''/albums'' \<and> Method r = ''POST''"
  then show "ServeHTTP s u d NewResponseWriter r = Some (addAlbum s u d NewResponseWriter r)"
    by (simp add: ServeHTTP_def)
next
  assume "URL_Path r = ''/albums'' \<and> Method r \<noteq> ''GET'' \<and> Method r \<noteq> ''POST''"
  then show "ServeHTTP s u d NewResponseWriter r =
        Some (d, \<lparr>Header = [''Allow'' \<mapsto> ''GET, POST'',
                            ''Content-Type'' \<mapsto> ''application/json; charset=utf-8''],
                  statusCode = Some 405,
                  written = [Indented (JObject [(''status'', JNumber 405),
                                                (''error'', JString ''method-not-allowed'')])]\<rparr>)"
    by (simp add: ServeHTTP_def method_not_allowed_reply)
next
  fix id'
  assume p: "URL_Path r = ''/albums/'' @ id' \<and> id' \<noteq> [] \<and> CHR ''/'' \<notin> set id'"
  have m: "match (URL_Path r) reAlbumsID [[]] = Some (True, [id'])"
    unfolding conjunct1 [OF p] match_reAlbumsID_append using p by simp
  {
    assume "Method r = ''GET''"
    with p m show "ServeHTTP s u d NewResponseWriter r =
        Some (getAlbumByID s d NewResponseWriter r id')"
      by (simp add: ServeHTTP_def)
  next
    assume "Method r \<noteq> ''GET''"
    with p m show "ServeHTTP s u d NewResponseWriter r =
           Some (d, \<lparr>Header = [''Allow'' \<mapsto> ''GET'',
                               ''Content-Type'' \<mapsto> ''application/json; charset=utf-8''],
                     statusCode = Some 405,
                     written = [Indented (JObject [(''status'', JNumber 405),
                                                   (''error'', JString ''method-not-allowed'')])]\<rparr>)"
      by (simp add: ServeHTTP_def method_not_allowed_reply)
  }
next
  assume p: "URL_Path r \<noteq> ''/albums''
      \<and> (\<forall>id'. URL_Path r = ''/albums/'' @ id' \<longrightarrow> id' = [] \<or> CHR ''/'' \<in> set id')"
  then have m: "match (URL_Path r) reAlbumsID [[]] = Some (False, [[]])"
    by (intro match_reAlbumsID_other) simp
  with p show "ServeHTTP s u d NewResponseWriter r =
        Some (d, \<lparr>Header = [''Content-Type'' \<mapsto> ''application/json; charset=utf-8''],
                  statusCode = Some 404,
                  written = [Indented (JObject [(''status'', JNumber 404),
                                                (''error'', JString ''not-found'')])]\<rparr>)"
    by (simp add: ServeHTTP_def not_found_reply)
qed

theorem ServeHTTP_routing_witness:
  "ServeHTTP (NewServer MemoryDatabase_methods) (\<lambda>b. Inr album_a1) main_db NewResponseWriter
      \<lparr>Method = ''DELETE'', URL_Path = ''/albums'', Body = Inr []\<rparr> =
     Some (main_db, \<lparr>Header = [''Allow'' \<mapsto> ''GET, POST'',
                                ''Content-Type'' \<mapsto> ''application/json; charset=utf-8''],
                     statusCode = Some 405,
                     written = [Indented (JObject [(''status'', JNumber 405),
                                                   (''error'', JString ''method-not-allowed'')])]\<rparr>)
   \<and> ServeHTTP (NewServer MemoryDatabase_methods) (\<lambda>b. Inr album_a1) main_db NewResponseWriter
      \<lparr>Method = ''POST'', URL_Path = ''/albums/a1'', Body = Inr []\<rparr> =
     Some (main_db, \<lparr>Header = [''Allow'' \<mapsto> ''GET'',
                                ''Content-Type'' \<mapsto> ''application/json; charset=utf-8''],
                     statusCode = Some 405,
                     written = [Indented (JObject [(''status'', JNumber 405),
                                                   (''error'', JString ''method-not-allowed'')])]\<rparr>)
   \<and> map (\<lambda>p. ServeHTTP (NewServer MemoryDatabase_methods) (\<lambda>b. Inr album_a1) main_db
                NewResponseWriter \<lparr>Method = ''GET'', URL_Path = p, Body = Inr []\<rparr>)
       [''/albums/'', ''/albums/a1/tracks'', ''/'', ''/album'']
     = replicate 4
        (Some (main_db, \<lparr>Header = [''Content-Type'' \<mapsto> ''application/json; charset=utf-8''],
                     statusCode = Some 404,
                     written = [Indented (JObject [(''status'', JNumber 404),
                                                   (''error'', JString ''not-found'')])]\<rparr>))
   \<and> ServeHTTP (NewServer MemoryDatabase_methods) (\<lambda>b. Inr album_a1) main_db NewResponseWriter
        \<lparr>Method = ''GET'', URL_Path = ''/albums'', Body = Inr []\<rparr> =
      Some (getAlbums (NewServer MemoryDatabase_methods) main_db NewResponseWriter
        \<lparr>Method = ''GET'', URL_Path = ''/albums'', Body = Inr []\<rparr>)
   \<and> ServeHTTP (NewServer MemoryDatabase_methods) (\<lambda>b. Inr album_a1) main_db NewResponseWriter
        \<lparr>Method = ''POST'', URL_Path = ''/albums'', Body = Inr []\<rparr> =
      Some (addAlbum (NewServer MemoryDatabase_methods) (\<lambda>b. Inr album_a1) main_db NewResponseWriter
        \<lparr>Method = ''POST'', URL_Path = ''/albums'', Body = Inr []\<rparr>)
   \<and> ServeHTTP (NewServer MemoryDatabase_methods) (\<lambda>b. Inr album_a1) main_db NewResponseWriter
        \<lparr>Method = ''GET'', URL_Path = ''/albums/a1'', Body = Inr []\<rparr> =
      Some (getAlbumByID (NewServer MemoryDatabase_methods) main_db NewResponseWriter
        \<lparr>Method = ''GET'', URL_Path = ''/albums/a1'', Body = Inr []\<rparr> ''a1'')"
proof -
  let ?s = "NewServer MemoryDatabase_methods"
  let ?u = "\<lambda>b::string. Inr album_a1 :: string + Album"
  note route = ServeHTTP_routing [where s = ?s and u = ?u and d = main_db]
  show ?thesis
    using route [of "\<lparr>Method = ''DELETE'', URL_Path = ''/albums'', Body = Inr []\<rparr>"]
      route [of "\<lparr>Method = ''POST'', URL_Path = ''/albums/a1'', Body = Inr []\<rparr>"]
      route [of "\<lparr>Method = ''GET'', URL_Path = ''/albums/'', Body = Inr []\<rparr>"]
      route [of "\<lparr>Method = ''GET'', URL_Path = ''/albums/a1/tracks'', Body = Inr []\<rparr>"]
      route [of "\<lparr>Method = ''GET'', URL_Path = ''/'', Body = Inr []\<rparr>"]
      route [of "\<lparr>Method = ''GET'', URL_Path = ''/album'', Body = Inr []\<rparr>"]
      route [of "\<lparr>Method = ''GET'', URL_Path = ''/albums'', Body = Inr []\<rparr>"]
      route [of "\<lparr>Method = ''POST'', URL_Path = ''/albums'', Body = Inr []\<rparr>"]
      route [of "\<lparr>Method = ''GET'', URL_Path = ''/albums/a1'', Body = Inr []\<rparr>"]
    by (simp add: numeral_eq_Suc)
qed

text \<open>
  The encoder leaves valid UTF-8 as it is and replaces any other byte. Strings decoded
  by \<^verbatim>\<open>encoding/json\<close> are valid UTF-8 (its decoder makes the same replacement).
\<close>

lemma json_string_valid: "utf8_ValidString s \<Longrightarrow> json_string s = s"
  by (induction s rule: utf8_ValidString.induct) (auto split: option.splits)

lemma json_string_invalid_byte:
  "json_string [CHR ''a'', CHR 0xFF, CHR ''b''] = [CHR ''a'', CHR 0xEF, CHR 0xBF, CHR 0xBD, CHR ''b'']"
  by (simp add: rune_width_def)

lemma utf8_ValidString_examples:
  "utf8_ValidString [CHR 0xC3, CHR 0xA9] \<and> utf8_ValidString [CHR 0xEF, CHR 0xBF, CHR 0xBD]
   \<and> utf8_ValidString [CHR 0xF0, CHR 0x9F, CHR 0x8E, CHR 0xB5]
   \<and> \<not> utf8_ValidString [CHR 0xC3] \<and> \<not> utf8_ValidString [CHR 0xC0, CHR 0x80]
   \<and> \<not> utf8_ValidString [CHR 0xED, CHR 0xA0, CHR 0x80]
   \<and> \<not> utf8_ValidString [CHR 0xF4, CHR 0x90, CHR 0x80, CHR 0x80]"
  by (simp add: rune_width_def tail_ok_def between_def)

text \<open>
  C8. A POST to \<^verbatim>\<open>/albums\<close> whose body decodes to an album that passes validation,
  whose strings are valid UTF-8 and whose id is not stored yet is answered with status
  201 and the JSON object of that album: its id, title and artist under \<^verbatim>\<open>id\<close>,
  \<^verbatim>\<open>title\<close> and \<^verbatim>\<open>artist\<close>, and its price under \<^verbatim>\<open>price\<close> unless the price
  is 0. The album is then the record stored under its id.
\<close>

theorem create_echoes_stored_album:
  assumes "Method r = ''POST''" and "URL_Path r = ''/albums''"
    and "Body r = Inr b" and "json_Unmarshal b = Inr a"
    and "ID a \<noteq> []" and "Title a \<noteq> []" and "Artist a \<noteq> []"
    and "0 \<le> Price a" and "Price a < 100000"
    and "utf8_ValidString (ID a)" and "utf8_ValidString (Title a)"
    and "utf8_ValidString (Artist a)"
    and "map_of (albums d) (ID a) = None"
  shows "ServeHTTP (NewServer MemoryDatabase_methods) json_Unmarshal d NewResponseWriter r =
          Some (fst (MemoryDatabase_AddAlbum d a),
                \<lparr>Header = [''Content-Type'' \<mapsto> ''application/json; charset=utf-8''],
                 statusCode = Some 201,
                 written = [Indented (JObject
                    ([(''id'', JString (ID a)), (''title'', JString (Title a)),
                      (''artist'', JString (Artist a))]
                     @ (if Price a = 0 then [] else [(''price'', JNumber (Price a))])))]\<rparr>)
       \<and> snd (MemoryDatabase_GetAlbumByID (fst (MemoryDatabase_AddAlbum d a)) (ID a)) = (a, None)"
proof -
  note dec = addAlbum_decoded [where json_Unmarshal = json_Unmarshal and d = d
      and s = "NewServer MemoryDatabase_methods" and w = NewResponseWriter, OF assms(3,4)]
  have valid: "addAlbum_issues a = []" using assms(5-9) by (simp add: issues_empty_iff)
  have add: "MemoryDatabase_AddAlbum d a = (d\<lparr>albums := AList.update (ID a) a (albums d)\<rparr>, None)"
    using assms(13) by (simp add: MemoryDatabase_AddAlbum_def)
  have "addAlbum (NewServer MemoryDatabase_methods) json_Unmarshal d NewResponseWriter r =
      (fst (MemoryDatabase_AddAlbum d a), writeJSON NewResponseWriter StatusCreated (AlbumValue a))"
    unfolding dec using valid
    by (simp add: NewServer_def MemoryDatabase_methods_def errors_Is_def add)
  then have "ServeHTTP (NewServer MemoryDatabase_methods) json_Unmarshal d NewResponseWriter r =
      Some (fst (MemoryDatabase_AddAlbum d a),
            writeJSON NewResponseWriter StatusCreated (AlbumValue a))"
    using assms(1,2) by (simp add: ServeHTTP_def)
  moreover have "marshal_Album a =
      JObject ([(''id'', JString (ID a)), (''title'', JString (Title a)),
                (''artist'', JString (Artist a))]
               @ (if Price a = 0 then [] else [(''price'', JNumber (Price a))]))"
    using assms(10-12) by (simp add: marshal_Album_def json_string_valid)
  then have "writeJSON NewResponseWriter StatusCreated (AlbumValue a) =
      \<lparr>Header = [''Content-Type'' \<mapsto> ''application/json; charset=utf-8''],
       statusCode = Some 201,
       written = [Indented (JObject
          ([(''id'', JString (ID a)), (''title'', JString (Title a)),
            (''artist'', JString (Artist a))]
           @ (if Price a = 0 then [] else [(''price'', JNumber (Price a))])))]\<rparr>"
    by (simp add: writeJSON_unwritten NewResponseWriter_def status_defs)
  moreover have "snd (MemoryDatabase_GetAlbumByID (fst (MemoryDatabase_AddAlbum d a)) (ID a))
      = (a, None)"
    using assms(13)
    by (simp add: MemoryDatabase_AddAlbum_def MemoryDatabase_GetAlbumByID_def update_conv')
  ultimately show ?thesis by simp
qed

theorem create_echoes_stored_album_witness:
  "ServeHTTP (NewServer MemoryDatabase_methods) (\<lambda>b. Inr album_a1) NewMemoryDatabase
      NewResponseWriter \<lparr>Method = ''POST'', URL_Path = ''/albums'', Body = Inr ''{}''\<rparr> =
     Some (\<lparr>albums = [(''a1'', album_a1)]\<rparr>,
           \<lparr>Header = [''Content-Type'' \<mapsto> ''application/json; charset=utf-8''],
            statusCode = Some 201,
            written = [Indented (JObject [(''id'', JString ''a1''),
                                          (''title'', JString ''9th Symphony''),
                                          (''artist'', JString ''Beethoven''),
                                          (''price'', JNumber 795)])]\<rparr>)
   \<and> snd (MemoryDatabase_GetAlbumByID \<lparr>albums = [(''a1'', album_a1)]\<rparr> ''a1'') = (album_a1, None)
   \<and> ServeHTTP (NewServer MemoryDatabase_methods) (\<lambda>b. Inr (album_a2\<lparr>Price := 0\<rparr>))
        NewMemoryDatabase
        NewResponseWriter \<lparr>Method = ''POST'', URL_Path = ''/albums'', Body = Inr ''{}''\<rparr> =
     Some (\<lparr>albums = [(''a2'', album_a2\<lparr>Price := 0\<rparr>)]\<rparr>,
           \<lparr>Header = [''Content-Type'' \<mapsto> ''application/json; charset=utf-8''],
            statusCode = Some 201,
            written = [Indented (JObject [(''id'', JString ''a2''),
                                          (''title'', JString ''Hey Jude''),
                                          (''artist'', JString ''The Beatles'')])]\<rparr>)"
proof -
  let ?r = "\<lparr>Method = ''POST'', URL_Path = ''/albums'', Body = Inr ''{}''\<rparr>"
  let ?free = "album_a2\<lparr>Price := 0\<rparr>"
  have req: "Method ?r = ''POST''" "URL_Path ?r = ''/albums''" "Body ?r = Inr ''{}''"
    by simp_all
  have add1: "fst (MemoryDatabase_AddAlbum NewMemoryDatabase album_a1) =
      \<lparr>albums = [(''a1'', album_a1)]\<rparr>"
    by (simp add: MemoryDatabase_AddAlbum_def NewMemoryDatabase_def album_a1_def)
  have add2: "fst (MemoryDatabase_AddAlbum NewMemoryDatabase ?free) =
      \<lparr>albums = [(''a2'', ?free)]\<rparr>"
    by (simp add: MemoryDatabase_AddAlbum_def NewMemoryDatabase_def album_a2_def)
  have f1: "ID album_a1 = ''a1''" "Title album_a1 = ''9th Symphony''"
    "Artist album_a1 = ''Beethoven''" "Price album_a1 = 795"
    by (simp_all add: album_a1_def)
  have f2: "ID ?free = ''a2''" "Title ?free = ''Hey Jude''"
    "Artist ?free = ''The Beatles''" "Price ?free = 0"
    by (simp_all add: album_a2_def)
  have v1: "ID album_a1 \<noteq> []" "Title album_a1 \<noteq> []" "Artist album_a1 \<noteq> []"
    "0 \<le> Price album_a1" "Price album_a1 < 100000"
    "utf8_ValidString (ID album_a1)" "utf8_ValidString (Title album_a1)"
    "utf8_ValidString (Artist album_a1)"
    by (simp_all add: album_a1_def rune_width_def)
  have v2: "ID ?free \<noteq> []" "Title ?free \<noteq> []" "Artist ?free \<noteq> []"
    "0 \<le> Price ?free" "Price ?free < 100000"
    "utf8_ValidString (ID ?free)" "utf8_ValidString (Title ?free)"
    "utf8_ValidString (Artist ?free)"
    by (simp_all add: album_a2_def rune_width_def)
  have new: "map_of (albums NewMemoryDatabase) k = None" for k
    by (simp add: NewMemoryDatabase_def)
  have one: "ServeHTTP (NewServer MemoryDatabase_methods) (\<lambda>b. Inr album_a1) NewMemoryDatabase
        NewResponseWriter ?r =
      Some (\<lparr>albums = [(''a1'', album_a1)]\<rparr>,
           \<lparr>Header = [''Content-Type'' \<mapsto> ''application/json; charset=utf-8''],
            statusCode = Some 201,
            written = [Indented (JObject [(''id'', JString ''a1''),
                                          (''title'', JString ''9th Symphony''),
                                          (''artist'', JString ''Beethoven''),
                                          (''price'', JNumber 795)])]\<rparr>)
    \<and> snd (MemoryDatabase_GetAlbumByID \<lparr>albums = [(''a1'', album_a1)]\<rparr> ''a1'') = (album_a1, None)"
    using create_echoes_stored_album [where r = ?r and b = "''{}''" and a = album_a1
        and json_Unmarshal = "\<lambda>b. Inr album_a1" and d = NewMemoryDatabase,
        OF req _ v1 new]
    by (simp add: f1 add1)
  have two: "ServeHTTP (NewServer MemoryDatabase_methods) (\<lambda>b. Inr ?free) NewMemoryDatabase
        NewResponseWriter ?r =
      Some (\<lparr>albums = [(''a2'', ?free)]\<rparr>,
           \<lparr>Header = [''Content-Type'' \<mapsto> ''application/json; charset=utf-8''],
            statusCode = Some 201,
            written = [Indented (JObject [(''id'', JString ''a2''),
                                          (''title'', JString ''Hey Jude''),
                                          (''artist'', JString ''The Beatles'')])]\<rparr>)"
    using create_echoes_stored_album [where r = ?r and b = "''{}''" and a = ?free
        and json_Unmarshal = "\<lambda>b. Inr ?free" and d = NewMemoryDatabase,
        OF req _ v2 new]
    by (simp add: f2 add2)
  from one two show ?thesis by blast
qed

text \<open>
  C9. A POST to \<^verbatim>\<open>/albums\<close> whose body cannot be decoded is answered with status
  400, kind \<^verbatim>\<open>malformed-json\<close> and the text of the decoding error under
  \<^verbatim>\<open>data.message\<close>; the state of the database comes back as it was, for every
  implementation of the interface, so the store was not called.
\<close>

theorem addAlbum_malformed_json:
  assumes "Method r = ''POST''" and "URL_Path r = ''/albums''"
    and "Body r = Inr b" and "json_Unmarshal b = Inl msg"
  shows "ServeHTTP s json_Unmarshal d NewResponseWriter r =
          Some (d, \<lparr>Header = [''Content-Type'' \<mapsto> ''application/json; charset=utf-8''],
                    statusCode = Some 400,
                    written = [Indented (JObject [(''status'', JNumber 400),
                                                  (''error'', JString ''malformed-json''),
                                                  (''data'', JObject [(''message'', JString msg)])])]\<rparr>)"
proof -
  have "addAlbum s json_Unmarshal d NewResponseWriter r =
      (d, jsonError NewResponseWriter StatusBadRequest ErrorMalformedJSON [(''message'', Str msg)])"
    using assms(3,4) by (simp add: addAlbum_def readJSON_def)
  moreover have "jsonError NewResponseWriter StatusBadRequest ErrorMalformedJSON [(''message'', Str msg)] =
      \<lparr>Header = [''Content-Type'' \<mapsto> ''application/json; charset=utf-8''],
       statusCode = Some 400,
       written = [Indented (JObject [(''status'', JNumber 400),
                                     (''error'', JString ''malformed-json''),
                                     (''data'', JObject [(''message'', JString msg)])])]\<rparr>"
    by (simp add: jsonError_unwritten NewResponseWriter_def marshal_response_def marshal_map_def
        status_defs kind_defs)
  ultimately show ?thesis using assms(1,2) by (simp add: ServeHTTP_def)
qed

theorem addAlbum_malformed_json_witness:
  "ServeHTTP (NewServer counting_Database)
      (\<lambda>b. if b = ''not valid json'' then Inl ''invalid character'' else Inr Album_zero)
      0 NewResponseWriter
      \<lparr>Method = ''POST'', URL_Path = ''/albums'', Body = Inr ''not valid json''\<rparr> =
     Some (0, \<lparr>Header = [''Content-Type'' \<mapsto> ''application/json; charset=utf-8''],
               statusCode = Some 400,
               written = [Indented (JObject [(''status'', JNumber 400),
                                             (''error'', JString ''malformed-json''),
                                             (''data'', JObject [(''message'',
                                                  JString ''invalid character'')])])]\<rparr>)"
proof -
  let ?r = "\<lparr>Method = ''POST'', URL_Path = ''/albums'', Body = Inr ''not valid json''\<rparr>"
  let ?u = "\<lambda>b. if b = ''not valid json'' then Inl ''invalid character'' else Inr Album_zero"
  have "Method ?r = ''POST''" "URL_Path ?r = ''/albums''" "Body ?r = Inr ''not valid json''"
    "?u ''not valid json'' = Inl ''invalid character''"
    by simp_all
  from addAlbum_malformed_json [where r = ?r and json_Unmarshal = ?u and b = "''not valid json''"
      and msg = "''invalid character''", OF this]
  show ?thesis .
qed

end
